theory Spec2Isabelle
  imports
    Complex_Main
    "HOL-Library.Product_Lexorder"
    "HOL-Library.List_Lexorder"
    "HOL-Library.Char_ord"
    "HOL-Library.Log_Nat"
    "HOL-Library.Sublist"
begin

section \<open>Data model\<close>

text \<open>
  The dashboard (\<^verbatim>\<open>app.py\<close>) works on one pandas table of orders, loaded by the
  query of \<^verbatim>\<open>load_orders\<close> with the columns \<^verbatim>\<open>ORDER_KEY\<close>, \<^verbatim>\<open>ORDER_DATE\<close>,
  \<^verbatim>\<open>STATUS\<close>, \<^verbatim>\<open>PRIORITY\<close> and \<^verbatim>\<open>TOTAL_PRICE\<close>. A row of it is the record
  \<open>order\<close>. A cell always holds a value of its column's type, as the order of the
  specification does; a null cell, which pandas leaves out of every group, is outside this
  model.

  A calendar date is the triple (year, month, day), ordered lexicographically, which is
  the chronological order. An amount is a float64 value, held as the rational it denotes.
  The total revenue and the cells of the revenue matrix are float64 sums (see \<open>fsum\<close>
  below). The quotients, the median, the quantile and the yearly table are computed
  exactly, their rounding being outside this model; the non-finite results of a
  floating-point division by zero are kept (see \<open>fval\<close> below).
\<close>

type_synonym date = "int \<times> nat \<times> nat"

definition year :: "date \<Rightarrow> int" where
  "year d = fst d"

definition month :: "date \<Rightarrow> nat" where
  "month d = fst (snd d)"

record order =
  ORDER_KEY :: int
  ORDER_DATE :: date
  STATUS :: string
  PRIORITY :: string
  TOTAL_PRICE :: rat

text \<open>
  A table either has the five columns of the query (\<open>Raw\<close>) or those and the column
  \<^verbatim>\<open>STATUS_LABEL\<close> (\<open>Enriched\<close>, a row paired with its label).
\<close>

datatype frame = Raw "order list" | Enriched "(order \<times> string) list"

fun orders :: "frame \<Rightarrow> order list" where
  "orders (Raw rs) = rs"
| "orders (Enriched es) = map fst es"

fun has_status_label :: "frame \<Rightarrow> bool" where
  "has_status_label (Raw rs) = False"
| "has_status_label (Enriched es) = True"

text \<open>\<^verbatim>\<open>len(df)\<close> and \<^verbatim>\<open>df.empty\<close>.\<close>

definition len :: "frame \<Rightarrow> nat" where
  "len df = length (orders df)"

definition empty_df :: "frame \<Rightarrow> bool" where
  "empty_df df = (len df = 0)"

text \<open>\<^verbatim>\<open>df[mask]\<close>: the rows at which the boolean mask holds, in their order.\<close>

definition masked :: "'a list \<Rightarrow> bool list \<Rightarrow> 'a list" where
  "masked xs keep = map fst (filter snd (zip xs keep))"

fun select_rows :: "frame \<Rightarrow> bool list \<Rightarrow> frame" where
  "select_rows (Raw rs) keep = Raw (masked rs keep)"
| "select_rows (Enriched es) keep = Enriched (masked es keep)"

datatype error =
    KeyError string
  | IndexError
  | ZeroDivisionError
  | RuntimeError string
  | StreamlitSecretNotFoundError

section \<open>Enrichment stage\<close>

definition STATUS_LABELS :: "(string \<times> string) list" where
  "STATUS_LABELS = [(''F'', ''Filled''), (''O'', ''Open''), (''P'', ''Pending'')]"

text \<open>
  \<^verbatim>\<open>Series.map(dict)\<close> gives NaN (here \<open>None\<close>) where the dictionary has no key;
  \<^verbatim>\<open>Series.fillna(other)\<close> takes the value of the other series at those rows.
\<close>

definition series_map :: "(string \<times> string) list \<Rightarrow> string list \<Rightarrow> string option list" where
  "series_map d xs = map (map_of d) xs"

definition fillna :: "string option list \<Rightarrow> string list \<Rightarrow> string list" where
  "fillna xs ys = map2 (\<lambda>x y. case x of None \<Rightarrow> y | Some v \<Rightarrow> v) xs ys"

text \<open>
  The body of \<^verbatim>\<open>enrich_orders\<close> after its guard: a copy of the table with the column
  \<^verbatim>\<open>STATUS_LABEL\<close> set (added, or overwritten when the table has one).
\<close>

definition with_status_label :: "frame \<Rightarrow> frame" where
  "with_status_label df =
     Enriched (zip (orders df)
       (fillna (series_map STATUS_LABELS (map STATUS (orders df))) (map STATUS (orders df))))"

definition enrich_orders :: "frame \<Rightarrow> frame" where
  "enrich_orders df = (if empty_df df then df else with_status_label df)"

section \<open>Filter stage\<close>

definition apply_mask :: "frame \<Rightarrow> date \<Rightarrow> date \<Rightarrow> string list \<Rightarrow> string list \<Rightarrow> bool list" where
  "apply_mask df start_date end_date status_list priority_list =
     (let keep = map2 (\<and>) (map (\<lambda>r. start_date \<le> ORDER_DATE r) (orders df))
                          (map (\<lambda>r. ORDER_DATE r \<le> end_date) (orders df));
          keep = (if status_list \<noteq> []
                  then map2 (\<and>) keep (map (\<lambda>r. STATUS r \<in> set status_list) (orders df))
                  else keep);
          keep = (if priority_list \<noteq> []
                  then map2 (\<and>) keep (map (\<lambda>r. PRIORITY r \<in> set priority_list) (orders df))
                  else keep)
      in keep)"

definition apply_filters :: "frame \<Rightarrow> date \<Rightarrow> date \<Rightarrow> string list \<Rightarrow> string list \<Rightarrow> frame" where
  "apply_filters df start_date end_date status_list priority_list =
     (if empty_df df then df
      else select_rows df (apply_mask df start_date end_date status_list priority_list))"

section \<open>Tables as objects\<close>

text \<open>
  Python passes a table by reference, and both stages return their argument itself when
  it is empty. The heap is the list of the table objects allocated so far, a reference is
  an index into it, and a new object goes to the end. A reference that names no object
  does not occur in Python; the model answers \<open>None\<close> there.
\<close>

type_synonym heap = "frame list"
type_synonym ref = nat

definition deref :: "heap \<Rightarrow> ref \<Rightarrow> frame option" where
  "deref h a = (if a < length h then Some (h ! a) else None)"

definition alloc :: "heap \<Rightarrow> frame \<Rightarrow> heap \<times> ref" where
  "alloc h df = (h @ [df], length h)"

definition enrich_orders_at :: "heap \<Rightarrow> ref \<Rightarrow> (heap \<times> ref) option" where
  "enrich_orders_at h a =
     (case deref h a of
        None \<Rightarrow> None
      | Some df \<Rightarrow> if empty_df df then Some (h, a) else Some (alloc h (with_status_label df)))"

definition apply_filters_at ::
  "heap \<Rightarrow> ref \<Rightarrow> date \<Rightarrow> date \<Rightarrow> string list \<Rightarrow> string list \<Rightarrow> (heap \<times> ref) option" where
  "apply_filters_at h a start_date end_date status_list priority_list =
     (case deref h a of
        None \<Rightarrow> None
      | Some df \<Rightarrow>
          if empty_df df then Some (h, a)
          else Some (alloc h
                 (select_rows df (apply_mask df start_date end_date status_list priority_list))))"

section \<open>Aggregation pipeline\<close>

subsection \<open>Building blocks\<close>

text \<open>
  \<^verbatim>\<open>groupby(key)\<close>: one group per distinct key, the keys ascending, a group's rows in
  the order of the table.
\<close>

definition groupby :: "('r \<Rightarrow> 'k::linorder) \<Rightarrow> 'r list \<Rightarrow> ('k \<times> 'r list) list" where
  "groupby key rs = map (\<lambda>k. (k, filter (\<lambda>r. key r = k) rs)) (sort (remdups (map key rs)))"

definition nunique :: "'a list \<Rightarrow> nat" where
  "nunique xs = length (remdups xs)"

text \<open>
  Float64 addition. \<open>float64 x\<close> is the float64 nearest to \<open>x\<close>, ties to the even
  significand: with \<open>e\<close> the exponent of \<open>x\<close> (\<open>2 ^ e \<le> |x| < 2 ^ (e + 1)\<close>), the
  multiple of \<open>2 ^ (e - 52)\<close> nearest to \<open>x\<close>. Overflow and subnormal results are
  outside the model. The sum of two floats is their exact sum, rounded.
\<close>

definition pow2 :: "int \<Rightarrow> rat" where
  "pow2 e = (if 0 \<le> e then 2 ^ nat e else 1 / 2 ^ nat (- e))"

definition round_half_even :: "rat \<Rightarrow> int" where
  "round_half_even x =
     (let f = \<lfloor>x\<rfloor>; r = x - of_int f
      in if r < 1 / 2 then f else if 1 / 2 < r then f + 1 else if even f then f else f + 1)"

definition exponent :: "rat \<Rightarrow> int" where
  "exponent x =
     (let (p, q) = quotient_of \<bar>x\<bar>; d = bitlen p - bitlen q
      in if pow2 d \<le> \<bar>x\<bar> then d else d - 1)"

definition float64 :: "rat \<Rightarrow> rat" where
  "float64 x =
     (if x = 0 then 0
      else let ulp = pow2 (exponent x - 52)
           in of_int (round_half_even (x / ulp)) * ulp)"

definition fadd :: "rat \<Rightarrow> rat \<Rightarrow> rat" where
  "fadd a b = float64 (a + b)"

text \<open>
  \<^verbatim>\<open>Series.sum()\<close> and the sum of a group: the values are added as floats, in the order
  of the rows. (That is the order of numpy for fewer than eight values; pandas adds a
  group in row order and compensates from the third value on.)
\<close>

definition fsum :: "rat list \<Rightarrow> rat" where
  "fsum xs = foldl fadd 0 xs"

text \<open>Python's \<^verbatim>\<open>a / b\<close>, which raises on a zero divisor.\<close>

definition truediv :: "rat \<Rightarrow> rat \<Rightarrow> error + rat" where
  "truediv a b = (if b = 0 then Inl ZeroDivisionError else Inr (a / b))"

text \<open>
  \<^verbatim>\<open>Series.quantile(q)\<close> with the default linear interpolation between the order
  statistics around position \<open>q * (n - 1)\<close>, and \<^verbatim>\<open>Series.median()\<close>. Both are NaN
  (\<open>None\<close>) on an empty series.
\<close>

definition quantile :: "rat \<Rightarrow> rat list \<Rightarrow> rat option" where
  "quantile q xs =
     (if xs = [] then None
      else let s = sort xs;
               n = length s;
               pos = q * of_nat (n - 1);
               lo = nat \<lfloor>pos\<rfloor>;
               hi = min (lo + 1) (n - 1);
               t = pos - of_nat lo
           in Some (s ! lo + (s ! hi - s ! lo) * t))"

definition median :: "rat list \<Rightarrow> rat option" where
  "median xs =
     (if xs = [] then None
      else let s = sort xs; n = length s
           in if odd n then Some (s ! (n div 2))
              else Some ((s ! (n div 2 - 1) + s ! (n div 2)) / 2))"

subsection \<open>KPI summary\<close>

record kpi =
  total_orders :: nat
  total_amount :: rat
  avg_order_value :: rat
  distinct_days :: nat
  orders_per_day :: rat
  median_order_value :: rat
  p90_order_value :: rat

text \<open>
  The seven values \<^verbatim>\<open>kpi_section\<close> computes before it renders them. The median and
  the quantile are taken under the guard \<^verbatim>\<open>not df.empty\<close> only, where they are numbers.
\<close>

definition kpi_section :: "frame \<Rightarrow> error + kpi" where
  "kpi_section df =
     (let n = len df;
          amount = (if \<not> empty_df df then fsum (map TOTAL_PRICE (orders df)) else 0)
      in case (if n > 0 then truediv amount (of_nat n) else Inr 0) of
           Inl e \<Rightarrow> Inl e
         | Inr avg \<Rightarrow>
      let days = (if \<not> empty_df df then nunique (map ORDER_DATE (orders df)) else 0)
      in case (if days > 0 then truediv (of_nat n) (of_nat days) else Inr 0) of
           Inl e \<Rightarrow> Inl e
         | Inr per_day \<Rightarrow>
      let med = (if \<not> empty_df df then the (median (map TOTAL_PRICE (orders df))) else 0);
          p90 = (if \<not> empty_df df then the (quantile (9 / 10) (map TOTAL_PRICE (orders df))) else 0)
      in Inr \<lparr> total_orders = n, total_amount = amount, avg_order_value = avg,
               distinct_days = days, orders_per_day = per_day, median_order_value = med,
               p90_order_value = p90 \<rparr>)"

subsection \<open>Yearly trend\<close>

text \<open>
  A floating-point result that may be non-finite: a number, an infinity, or NaN. The
  division of two numbers is non-finite exactly when the divisor is zero.
\<close>

datatype fval = Num rat | PosInf | NegInf | NaN

definition fdiv :: "rat \<Rightarrow> rat \<Rightarrow> fval" where
  "fdiv a b =
     (if b \<noteq> 0 then Num (a / b)
      else if 0 < a then PosInf else if a < 0 then NegInf else NaN)"

fun fsub :: "fval \<Rightarrow> rat \<Rightarrow> fval" where
  "fsub (Num x) c = Num (x - c)"
| "fsub v c = v"

text \<open>Multiplication by a positive constant.\<close>

fun fscale :: "fval \<Rightarrow> rat \<Rightarrow> fval" where
  "fscale (Num x) c = Num (x * c)"
| "fscale v c = v"

text \<open>
  \<^verbatim>\<open>Series.pct_change()\<close> is \<^verbatim>\<open>data / data.shift(1) - 1\<close>: NaN at the first row,
  which has no row before it.
\<close>

fun pct_change :: "rat list \<Rightarrow> fval list" where
  "pct_change [] = []"
| "pct_change (x # xs) = NaN # map2 (\<lambda>prev cur. fsub (fdiv cur prev) 1) (x # xs) xs"

text \<open>
  A row of \<^verbatim>\<open>df_year\<close>: year, \<^verbatim>\<open>order_cnt\<close>, \<^verbatim>\<open>total_amount\<close> and
  \<^verbatim>\<open>revenue_yoy\<close>.
\<close>

type_synonym year_row = "int \<times> nat \<times> rat \<times> fval"


definition df_year :: "order list \<Rightarrow> year_row list" where
  "df_year rs =
     (let agg = sort_key fst
            (map (\<lambda>(y, g). (y, length g, sum_list (map TOTAL_PRICE g)))
               (groupby (\<lambda>r. year (ORDER_DATE r)) rs));
          yoy = map (\<lambda>v. fscale v 100) (pct_change (map (\<lambda>(y, c, t). t) agg))
      in map2 (\<lambda>(y, c, t) v. (y, c, t, v)) agg yoy)"



subsection \<open>Revenue by status over time\<close>

definition month_start :: "date \<Rightarrow> date" where
  "month_start d = (year d, month d, 1)"

text \<open>
  \<^verbatim>\<open>status_trend_section\<close> groups by month and \<^verbatim>\<open>STATUS_LABEL\<close>; a table without
  that column makes the \<^verbatim>\<open>groupby\<close> raise \<^verbatim>\<open>KeyError\<close>.
\<close>

fun status_trend :: "frame \<Rightarrow> error + ((date \<times> string) \<times> rat) list" where
  "status_trend (Raw rs) = Inl (KeyError ''STATUS_LABEL'')"
| "status_trend (Enriched es) =
     Inr (map (\<lambda>(k, g). (k, sum_list (map (TOTAL_PRICE \<circ> fst) g)))
            (groupby (\<lambda>(r, l). (month_start (ORDER_DATE r), l)) es))"

definition status_trend_section :: "frame \<Rightarrow> error + ((date \<times> string) \<times> rat) list option" where
  "status_trend_section df =
     (if empty_df df then Inr None
      else case status_trend df of Inl e \<Rightarrow> Inl e | Inr t \<Rightarrow> Inr (Some t))"

subsection \<open>Categorical distribution\<close>

text \<open>
  \<^verbatim>\<open>df.groupby(col)["ORDER_KEY"].count()\<close>: per group the number of rows whose
  \<^verbatim>\<open>ORDER_KEY\<close> is not null, which is every row of the group.
\<close>

definition count_by :: "(order \<Rightarrow> string) \<Rightarrow> order list \<Rightarrow> (string \<times> nat) list" where
  "count_by col rs = map (\<lambda>(k, g). (k, length g)) (groupby col rs)"

text \<open>\<^verbatim>\<open>status_cnt\<close> and \<^verbatim>\<open>priority_cnt\<close> of \<^verbatim>\<open>distribution_section\<close>.\<close>

definition distribution_section ::
  "frame \<Rightarrow> ((string \<times> nat) list \<times> (string \<times> nat) list) option" where
  "distribution_section df =
     (if empty_df df then None
      else Some (count_by STATUS (orders df), count_by PRIORITY (orders df)))"

subsection \<open>Status by priority revenue matrix\<close>




subsection \<open>Deterministic sample\<close>

text \<open>
  \<^verbatim>\<open>df.take(positions)\<close>: the rows at the positions, in the order of the positions; a
  position outside the table raises \<^verbatim>\<open>IndexError\<close>.
\<close>

definition take_list :: "'a list \<Rightarrow> nat list \<Rightarrow> error + 'a list" where
  "take_list xs ps = (if \<forall>p \<in> set ps. p < length xs then Inr (map ((!) xs) ps) else Inl IndexError)"

fun take_rows :: "frame \<Rightarrow> nat list \<Rightarrow> error + frame" where
  "take_rows (Raw rs) ps = (case take_list rs ps of Inl e \<Rightarrow> Inl e | Inr xs \<Rightarrow> Inr (Raw xs))"
| "take_rows (Enriched es) ps =
     (case take_list es ps of Inl e \<Rightarrow> Inl e | Inr xs \<Rightarrow> Inr (Enriched xs))"

text \<open>
  The generator is numpy's, outside the repository, and is a parameter: \<open>RandomState\<close>
  makes a generator from a seed, \<open>choice g n k\<close> draws \<open>k\<close> positions below \<open>n\<close>
  without replacement from the generator \<open>g\<close>. \<^verbatim>\<open>df.sample(n, random_state=seed)\<close>
  draws from a generator of its own, made from the seed.
\<close>

definition sample :: "(nat \<Rightarrow> 'g) \<Rightarrow> ('g \<Rightarrow> nat \<Rightarrow> nat \<Rightarrow> nat list) \<Rightarrow> frame \<Rightarrow> nat \<Rightarrow> nat \<Rightarrow> error + frame" where
  "sample RandomState choice df n random_state =
     take_rows df (choice (RandomState random_state) (len df) n)"

text \<open>
  \<^verbatim>\<open>sample_table_section\<close> runs in a process whose global generator is in some state
  \<open>ambient\<close>; it returns the table it shows, if any, and the global generator's state
  afterwards.
\<close>

definition sample_table_section ::
  "(nat \<Rightarrow> 'g) \<Rightarrow> ('g \<Rightarrow> nat \<Rightarrow> nat \<Rightarrow> nat list) \<Rightarrow> 'g \<Rightarrow> frame \<Rightarrow> (error + frame option) \<times> 'g" where
  "sample_table_section RandomState choice ambient df =
     (if empty_df df then (Inr None, ambient)
      else case sample RandomState choice df (min 1000 (len df)) 42 of
             Inl e \<Rightarrow> (Inl e, ambient)
           | Inr s \<Rightarrow> (Inr (Some s), ambient))"

section \<open>Data source adapter\<close>

text \<open>
  \<^verbatim>\<open>snowflake_query.py\<close>. The environment maps a variable name to its value; reading a
  variable that is not set raises \<^verbatim>\<open>KeyError\<close> with the name.

  The secrets store is Streamlit's and is read from a secrets file. With no such file any
  access to the store, the test \<^verbatim>\<open>"snowflake" in st.secrets\<close> included, raises
  \<^verbatim>\<open>StreamlitSecretNotFoundError\<close>, whose message lists the places searched for the
  file. With a file the store maps a section name to a dictionary, and reading a key that
  a section lacks raises \<^verbatim>\<open>KeyError\<close> with a sentence of Streamlit's about the key:
  the parameter \<open>key_message\<close>.
\<close>

type_synonym dict = "string \<rightharpoonup> string"

record conn_params =
  user :: string
  password :: string
  account :: string
  warehouse :: string
  database :: string
  schema :: string
  role :: string

definition getitem :: "dict \<Rightarrow> string \<Rightarrow> error + string" where
  "getitem d k = (case d k of None \<Rightarrow> Inl (KeyError k) | Some v \<Rightarrow> Inr v)"

definition secrets_getitem :: "(string \<Rightarrow> string) \<Rightarrow> dict \<Rightarrow> string \<Rightarrow> error + string" where
  "secrets_getitem key_message s k =
     (case s k of None \<Rightarrow> Inl (KeyError (key_message k)) | Some v \<Rightarrow> Inr v)"

definition get_default :: "dict \<Rightarrow> string \<Rightarrow> string \<Rightarrow> string" where
  "get_default d k dflt = (case d k of None \<Rightarrow> dflt | Some v \<Rightarrow> v)"

definition quoted :: "string \<Rightarrow> string" where
  "quoted s = [CHR 0x27] @ s @ [CHR 0x27]"

definition missing_message :: "string \<Rightarrow> string" where
  "missing_message missing =
     ''Missing Snowflake configuration for '' @ quoted missing @ ''. '' @
     ''Provide it via st.secrets['' @ quoted ''snowflake'' @ ''] or environment variables.''"

text \<open>
  The three required fields are read first and in this order, so the first one that is
  missing raises; the optional ones have defaults.
\<close>

definition required3 ::
  "(string \<Rightarrow> error + string) \<Rightarrow> string \<Rightarrow> string \<Rightarrow> string \<Rightarrow> error + (string \<times> string \<times> string)" where
  "required3 read k1 k2 k3 =
     (case read k1 of Inl e \<Rightarrow> Inl e | Inr v1 \<Rightarrow>
      case read k2 of Inl e \<Rightarrow> Inl e | Inr v2 \<Rightarrow>
      case read k3 of Inl e \<Rightarrow> Inl e | Inr v3 \<Rightarrow> Inr (v1, v2, v3))"

definition get_connection_params ::
  "(string \<Rightarrow> string) \<Rightarrow> (string \<rightharpoonup> dict) option \<Rightarrow> dict \<Rightarrow> error + conn_params" where
  "get_connection_params key_message secrets environ =
     (case secrets of
        None \<Rightarrow> Inl StreamlitSecretNotFoundError
      | Some store \<Rightarrow>
     (case store ''snowflake'' of
        Some s \<Rightarrow>
          (case required3 (secrets_getitem key_message s) ''user'' ''password'' ''account'' of
             Inl e \<Rightarrow> Inl e
           | Inr (u, p, a) \<Rightarrow>
               Inr \<lparr> user = u, password = p, account = a,
                     warehouse = get_default s ''warehouse'' ''WH_DEMO'',
                     database = get_default s ''database'' ''SNOWFLAKE_SAMPLE_DATA'',
                     schema = get_default s ''schema'' ''TPCH_SF1'',
                     role = get_default s ''role'' ''ACCOUNTADMIN'' \<rparr>)
      | None \<Rightarrow>
          (case required3 (getitem environ)
                  ''SNOWFLAKE_USER'' ''SNOWFLAKE_PASSWORD'' ''SNOWFLAKE_ACCOUNT'' of
             Inl (KeyError missing) \<Rightarrow> Inl (RuntimeError (missing_message missing))
           | Inl e \<Rightarrow> Inl e
           | Inr (u, p, a) \<Rightarrow>
               Inr \<lparr> user = u, password = p, account = a,
                     warehouse = get_default environ ''SNOWFLAKE_WAREHOUSE'' ''WH_DEMO'',
                     database = get_default environ ''SNOWFLAKE_DATABASE'' ''SNOWFLAKE_SAMPLE_DATA'',
                     schema = get_default environ ''SNOWFLAKE_SCHEMA'' ''TPCH_SF1'',
                     role = get_default environ ''SNOWFLAKE_ROLE'' ''ACCOUNTADMIN'' \<rparr>)))"

text \<open>
  What \<^verbatim>\<open>run_query\<close> asks of the connector, in order. The connector and the table it
  reads are outside the repository: \<open>read_sql\<close> is a parameter, and a failure of the
  connector itself is not modelled.
\<close>

datatype event =
    Connect conn_params
  | Execute string
  | CursorClose
  | ReadSql string "string list"
  | ConnClose

definition use_statement :: "string \<Rightarrow> string \<Rightarrow> event list" where
  "use_statement kind name =
     (if name \<noteq> [] then [Execute (''USE '' @ kind @ '' '' @ [CHR 0x22] @ name @ [CHR 0x22])] else [])"

definition run_query ::
  "(string \<Rightarrow> string list \<Rightarrow> frame) \<Rightarrow> (string \<Rightarrow> string) \<Rightarrow> (string \<rightharpoonup> dict) option
     \<Rightarrow> dict \<Rightarrow> string \<Rightarrow> string list \<Rightarrow> (error + frame) \<times> event list" where
  "run_query read_sql key_message secrets environ sql params =
     (case get_connection_params key_message secrets environ of
        Inl e \<Rightarrow> (Inl e, [])
      | Inr conn_params \<Rightarrow>
          (Inr (read_sql sql params),
           [Connect conn_params]
           @ use_statement ''WAREHOUSE'' (warehouse conn_params)
           @ use_statement ''DATABASE'' (database conn_params)
           @ use_statement ''SCHEMA'' (schema conn_params)
           @ [CursorClose, ReadSql sql params, ConnClose]))"

section \<open>Notions of the specification\<close>

text \<open>
  The filter stage in the words of the specification: the rows of the table that satisfy
  the conjunctive predicate, an empty selection list restricting nothing.
\<close>

definition in_filter :: "date \<Rightarrow> date \<Rightarrow> string list \<Rightarrow> string list \<Rightarrow> order \<Rightarrow> bool" where
  "in_filter start_date end_date status_set priority_set r =
     (start_date \<le> ORDER_DATE r \<and> ORDER_DATE r \<le> end_date
      \<and> (status_set = [] \<or> STATUS r \<in> set status_set)
      \<and> (priority_set = [] \<or> PRIORITY r \<in> set priority_set))"

fun rows_where :: "(order \<Rightarrow> bool) \<Rightarrow> frame \<Rightarrow> frame" where
  "rows_where p (Raw rs) = Raw (filter p rs)"
| "rows_where p (Enriched es) = Enriched (filter (p \<circ> fst) es)"

text \<open>The column \<^verbatim>\<open>STATUS_LABEL\<close> of a table, if it has one.\<close>

fun status_label_column :: "frame \<Rightarrow> string list option" where
  "status_label_column (Raw rs) = None"
| "status_label_column (Enriched es) = Some (map snd es)"

text \<open>A reference is fresh for a heap when it names none of the heap's objects.\<close>

definition fresh_in :: "heap \<Rightarrow> ref \<Rightarrow> bool" where
  "fresh_in h r = (deref h r = None)"



text \<open>
  The yearly trend in the words of the specification: the calendar years present in a
  table, ascending; the revenue and the number of orders of a year; and the growth of a
  revenue over the revenue before it, in percent.
\<close>

definition order_year :: "order \<Rightarrow> int" where
  "order_year r = year (ORDER_DATE r)"

definition years_present :: "order list \<Rightarrow> int list" where
  "years_present rs = sort (remdups (map order_year rs))"

definition year_revenue :: "order list \<Rightarrow> int \<Rightarrow> rat" where
  "year_revenue rs y = sum_list (map TOTAL_PRICE (filter (\<lambda>r. order_year r = y) rs))"

definition year_orders :: "order list \<Rightarrow> int \<Rightarrow> nat" where
  "year_orders rs y = length (filter (\<lambda>r. order_year r = y) rs)"


text \<open>
  The three orders of the specification's scenario, and a fourth with a status code
  outside the fixed mapping.
\<close>

definition order1 :: order where
  "order1 = \<lparr> ORDER_KEY = 1, ORDER_DATE = (2020, 1, 5), STATUS = ''F'', PRIORITY = ''HIGH'',
              TOTAL_PRICE = 100 \<rparr>"

definition order2 :: order where
  "order2 = \<lparr> ORDER_KEY = 2, ORDER_DATE = (2020, 2, 10), STATUS = ''O'', PRIORITY = ''LOW'',
              TOTAL_PRICE = 200 \<rparr>"

definition order3 :: order where
  "order3 = \<lparr> ORDER_KEY = 3, ORDER_DATE = (2021, 1, 20), STATUS = ''F'', PRIORITY = ''HIGH'',
              TOTAL_PRICE = 300 \<rparr>"

definition order4 :: order where
  "order4 = \<lparr> ORDER_KEY = 4, ORDER_DATE = (2021, 3, 2), STATUS = ''X'', PRIORITY = ''LOW'',
              TOTAL_PRICE = 50 \<rparr>"

section \<open>KPI summary of the empty table\<close>

lemma truediv_nonzero: "b \<noteq> 0 \<Longrightarrow> truediv a b = Inr (a / b)"
  by (simp add: truediv_def)

lemma nunique_pos: "xs \<noteq> [] \<Longrightarrow> 0 < nunique xs"
  by (cases xs) (auto simp: nunique_def)

text \<open>
  C1. On an empty table \<^verbatim>\<open>kpi_section\<close> computes 0 for each of its seven values. On no
  table does it raise: each division is guarded by its divisor being positive, so the
  \<^verbatim>\<open>ZeroDivisionError\<close> branch of \<open>truediv\<close> is never taken.
\<close>

theorem kpi_section_empty_table:
  "(empty_df df \<longrightarrow>
      kpi_section df = Inr \<lparr> total_orders = 0, total_amount = 0, avg_order_value = 0,
        distinct_days = 0, orders_per_day = 0, median_order_value = 0, p90_order_value = 0 \<rparr>)
   \<and> (\<forall>e. kpi_section df \<noteq> Inl e)"
proof (cases "empty_df df")
  case True
  then show ?thesis by (simp add: kpi_section_def empty_df_def)
next
  case False
  then have ne: "orders df \<noteq> []" by (simp add: empty_df_def len_def)
  then have "0 < nunique (map ORDER_DATE (orders df))" by (simp add: nunique_pos)
  with False ne show ?thesis
    by (simp add: kpi_section_def Let_def truediv_nonzero len_def)
qed

theorem kpi_section_empty_table_witness:
  "empty_df (Raw []) \<and>
   kpi_section (Raw []) = Inr \<lparr> total_orders = 0, total_amount = 0, avg_order_value = 0,
        distinct_days = 0, orders_per_day = 0, median_order_value = 0, p90_order_value = 0 \<rparr>"
  using kpi_section_empty_table [of "Raw []"] by (simp add: empty_df_def len_def)

section \<open>Filter stage\<close>

lemma masked_map: "masked xs (map p xs) = filter p xs"
  by (induction xs) (auto simp: masked_def)

lemma masked_map_fst: "masked es (map p (map fst es)) = filter (p \<circ> fst) es"
  by (induction es) (auto simp: masked_def)

lemma map2_conj: "map2 (\<and>) (map p xs) (map q xs) = map (\<lambda>x. p x \<and> q x) xs"
  by (induction xs) auto

lemma in_filter_fun:
  "in_filter s e sl pl =
     (\<lambda>r. s \<le> ORDER_DATE r \<and> ORDER_DATE r \<le> e \<and> (sl = [] \<or> STATUS r \<in> set sl)
              \<and> (pl = [] \<or> PRIORITY r \<in> set pl))"
  by (rule ext) (simp add: in_filter_def)

lemma apply_mask_eq: "apply_mask df s e sl pl = map (in_filter s e sl pl) (orders df)"
  by (auto simp: apply_mask_def Let_def map2_conj in_filter_fun)

lemma select_rows_apply_mask:
  "select_rows df (apply_mask df s e sl pl) = rows_where (in_filter s e sl pl) df"
  by (cases df) (simp_all add: apply_mask_eq masked_map masked_map_fst)

lemma rows_where_empty: "empty_df df \<Longrightarrow> rows_where p df = df"
  by (cases df) (simp_all add: empty_df_def len_def)

lemma orders_rows_where: "orders (rows_where p df) = filter p (orders df)"
  by (cases df) (simp_all add: filter_map)

lemma apply_filters_rows_where:
  "apply_filters df s e sl pl = rows_where (in_filter s e sl pl) df"
  by (simp add: apply_filters_def select_rows_apply_mask rows_where_empty)

text \<open>
  C2. \<^verbatim>\<open>apply_filters\<close> returns exactly the rows of its table whose date is in the
  inclusive range and whose status and priority are in the selection lists, an empty list
  restricting nothing: with an empty status list the result is that of the date and
  priority conditions alone, and likewise for an empty priority list. An empty table, and a
  table without a matching row, give an empty table. The function is total: no branch of
  it raises.
\<close>

theorem apply_filters_subset:
  "apply_filters df start_date end_date status_set priority_set =
     rows_where (in_filter start_date end_date status_set priority_set) df
   \<and> orders (apply_filters df start_date end_date status_set priority_set) =
       filter (\<lambda>r. start_date \<le> ORDER_DATE r \<and> ORDER_DATE r \<le> end_date
                  \<and> (status_set = [] \<or> STATUS r \<in> set status_set)
                  \<and> (priority_set = [] \<or> PRIORITY r \<in> set priority_set)) (orders df)
   \<and> orders (apply_filters df start_date end_date [] priority_set) =
       filter (\<lambda>r. start_date \<le> ORDER_DATE r \<and> ORDER_DATE r \<le> end_date
                  \<and> (priority_set = [] \<or> PRIORITY r \<in> set priority_set)) (orders df)
   \<and> orders (apply_filters df start_date end_date status_set []) =
       filter (\<lambda>r. start_date \<le> ORDER_DATE r \<and> ORDER_DATE r \<le> end_date
                  \<and> (status_set = [] \<or> STATUS r \<in> set status_set)) (orders df)
   \<and> (empty_df df \<longrightarrow> empty_df (apply_filters df start_date end_date status_set priority_set))
   \<and> ((\<forall>r \<in> set (orders df). \<not> in_filter start_date end_date status_set priority_set r) \<longrightarrow>
        empty_df (apply_filters df start_date end_date status_set priority_set))"
  by (simp add: apply_filters_rows_where orders_rows_where in_filter_fun empty_df_def len_def
        filter_empty_conv)

theorem apply_filters_subset_witness:
  "orders (apply_filters (Enriched [(order1, ''Filled''), (order2, ''Open''), (order3, ''Filled'')])
      (1992, 1, 1) (1998, 12, 31) [''O''] []) = []
   \<and> apply_filters (Enriched [(order1, ''Filled''), (order2, ''Open''), (order3, ''Filled'')])
      (2020, 1, 5) (2021, 1, 20) [''O''] [] = Enriched [(order2, ''Open'')]
   \<and> empty_df (Raw [])
   \<and> empty_df (apply_filters (Raw []) (2020, 1, 5) (2021, 1, 20) [''O''] [])"
  using
    apply_filters_subset [of "Enriched [(order1, ''Filled''), (order2, ''Open''), (order3, ''Filled'')]"
      "(1992, 1, 1)" "(1998, 12, 31)" "[''O'']" "[]"]
    apply_filters_subset [of "Enriched [(order1, ''Filled''), (order2, ''Open''), (order3, ''Filled'')]"
      "(2020, 1, 5)" "(2021, 1, 20)" "[''O'']" "[]"]
    apply_filters_subset [of "Raw []" "(2020, 1, 5)" "(2021, 1, 20)" "[''O'']" "[]"]
  by (simp add: in_filter_def order1_def order2_def order3_def empty_df_def len_def)

section \<open>Enrichment stage\<close>

lemma fillna_series_map:
  "fillna (series_map STATUS_LABELS xs) xs =
     map (\<lambda>c. if c = ''F'' then ''Filled'' else if c = ''O'' then ''Open''
               else if c = ''P'' then ''Pending'' else c) xs"
  by (induction xs) (simp_all add: fillna_def series_map_def STATUS_LABELS_def)

lemma zip_map_self: "map fst (zip xs (map f xs)) = xs" "map snd (zip xs (map f xs)) = map f xs"
  by (induction xs) simp_all

lemma with_status_label_column:
  "status_label_column (with_status_label df) =
     Some (map (\<lambda>r. if STATUS r = ''F'' then ''Filled'' else if STATUS r = ''O'' then ''Open''
               else if STATUS r = ''P'' then ''Pending'' else STATUS r) (orders df))"
  by (simp add: with_status_label_def fillna_series_map zip_map_self comp_def)

lemma orders_with_status_label: "orders (with_status_label df) = orders df"
  by (simp add: with_status_label_def fillna_series_map zip_map_self comp_def)

lemma enrich_orders_at_prefix:
  "enrich_orders_at h a = Some (h', r) \<Longrightarrow> take (length h) h' = h"
  by (auto simp: enrich_orders_at_def alloc_def split: option.splits if_splits)

lemma apply_filters_at_prefix:
  "apply_filters_at h a s e sl pl = Some (h', r) \<Longrightarrow> take (length h) h' = h"
  by (auto simp: apply_filters_at_def alloc_def split: option.splits if_splits)

lemma enrich_empty: "empty_df df \<Longrightarrow> enrich_orders df = df"
  by (simp add: enrich_orders_def)

lemma has_label_with: "has_status_label (with_status_label df)"
  by (simp add: with_status_label_def)

lemma has_label_select_rows: "has_status_label (select_rows df m) = has_status_label df"
  by (cases df) simp_all

lemma status_trend_section_labelled:
  "has_status_label df \<Longrightarrow> status_trend_section df \<noteq> Inl e"
  by (cases df) (simp_all add: status_trend_section_def)

lemma status_trend_section_empty: "empty_df df \<Longrightarrow> status_trend_section df = Inr None"
  by (simp add: status_trend_section_def)

text \<open>
  C6. \<^verbatim>\<open>enrich_orders\<close> keeps the rows of its table, and on a table with rows the
  column \<^verbatim>\<open>STATUS_LABEL\<close> of its result holds, row by row, Filled for the status F, Open
  for O, Pending for P, and the status code itself for any other code. It has no side
  effect: every table object that exists before the call is the same after it.
\<close>

theorem enrich_orders_status_label:
  "orders (enrich_orders df) = orders df
   \<and> (\<not> empty_df df \<longrightarrow>
        status_label_column (enrich_orders df) =
          Some (map (\<lambda>r. if STATUS r = ''F'' then ''Filled''
                          else if STATUS r = ''O'' then ''Open''
                          else if STATUS r = ''P'' then ''Pending''
                          else STATUS r) (orders df)))
   \<and> (enrich_orders_at h a = Some (h', r) \<longrightarrow> take (length h) h' = h)"
  by (simp add: enrich_orders_def orders_with_status_label with_status_label_column
        enrich_orders_at_prefix)

theorem enrich_orders_status_label_witness:
  "\<not> empty_df (Raw [order1, order2, order4])
   \<and> status_label_column (enrich_orders (Raw [order1, order2, order4])) =
       Some [''Filled'', ''Open'', ''X'']
   \<and> enrich_orders_at [Raw [order4]] 0 = Some ([Raw [order4], Enriched [(order4, ''X'')]], 1)
   \<and> take (length [Raw [order4]]) [Raw [order4], Enriched [(order4, ''X'')]] = [Raw [order4]]"
  using enrich_orders_status_label [of "Raw [order1, order2, order4]" "[Raw [order4]]" 0
      "[Raw [order4], Enriched [(order4, ''X'')]]" 1]
  by (simp add: empty_df_def len_def enrich_orders_at_def deref_def alloc_def
        with_status_label_def fillna_def series_map_def STATUS_LABELS_def
        order1_def order2_def order4_def)

text \<open>
  C9. An empty table is returned as it is, so the empty table of the query comes back
  without the column \<^verbatim>\<open>STATUS_LABEL\<close>, and only a table with rows is sure to have the
  column after the stage. A transform that groups by \<^verbatim>\<open>STATUS_LABEL\<close>
  (\<^verbatim>\<open>status_trend_section\<close>) raises \<^verbatim>\<open>KeyError\<close> on a table with rows that lacks the
  column; on the output of the stage, filtered or not, it never does, because it returns
  before the \<^verbatim>\<open>groupby\<close> when the table is empty.
\<close>

theorem enrich_orders_empty_unlabelled:
  "(empty_df df \<longrightarrow> enrich_orders df = df)
   \<and> enrich_orders (Raw []) = Raw []
   \<and> \<not> has_status_label (enrich_orders (Raw []))
   \<and> (\<not> empty_df df \<longrightarrow> has_status_label (enrich_orders df))
   \<and> (\<not> empty_df (Raw rs) \<longrightarrow> status_trend_section (Raw rs) = Inl (KeyError ''STATUS_LABEL''))
   \<and> status_trend_section (enrich_orders (Raw [])) = Inr None
   \<and> (\<forall>e. status_trend_section (enrich_orders (Raw rs)) \<noteq> Inl e)
   \<and> (\<forall>e. status_trend_section
             (apply_filters (enrich_orders (Raw rs)) start_date end_date status_list priority_list)
           \<noteq> Inl e)"
proof -
  have a: "enrich_orders (Raw []) = Raw []"
    by (simp add: enrich_orders_def empty_df_def len_def)
  have b: "\<not> empty_df df \<Longrightarrow> has_status_label (enrich_orders df)" for df
    by (simp add: enrich_orders_def has_label_with)
  have c: "status_trend_section (enrich_orders (Raw rs)) \<noteq> Inl e" for e
  proof (cases "empty_df (Raw rs)")
    case True
    then show ?thesis by (simp add: enrich_empty status_trend_section_empty)
  next
    case False
    then show ?thesis using b status_trend_section_labelled by blast
  qed
  have d: "status_trend_section
             (apply_filters (enrich_orders (Raw rs)) start_date end_date status_list priority_list)
           \<noteq> Inl e" for e
  proof (cases "empty_df (enrich_orders (Raw rs))")
    case True
    then show ?thesis by (simp add: apply_filters_def status_trend_section_empty)
  next
    case False
    then have "\<not> empty_df (Raw rs)" by (auto simp: enrich_empty)
    then have "has_status_label (enrich_orders (Raw rs))" by (rule b)
    with False show ?thesis
      by (simp add: apply_filters_def has_label_select_rows status_trend_section_labelled)
  qed
  show ?thesis using a b c d
    by (auto simp: enrich_empty status_trend_section_def empty_df_def len_def)
qed

theorem enrich_orders_empty_unlabelled_witness:
  "empty_df (Raw []) \<and> enrich_orders (Raw []) = Raw []
   \<and> \<not> empty_df (Raw [order4]) \<and> has_status_label (enrich_orders (Raw [order4]))
   \<and> status_trend_section (Raw [order4]) = Inl (KeyError ''STATUS_LABEL'')
   \<and> status_trend_section (enrich_orders (Raw [order4])) = Inr (Some [(((2021, 3, 1), ''X''), 50)])"
  using enrich_orders_empty_unlabelled [of "Raw []" "[order4]" "(2021, 1, 1)" "(2021, 1, 1)" "[]" "[]"]
    enrich_orders_empty_unlabelled [of "Raw [order4]" "[order4]" "(2021, 1, 1)" "(2021, 1, 1)" "[]" "[]"]
  by (simp add: empty_df_def len_def enrich_orders_def with_status_label_def fillna_def
        series_map_def STATUS_LABELS_def status_trend_section_def groupby_def month_start_def
        year_def month_def order4_def)

section \<open>Tables as objects: what the stages leave unchanged\<close>

text \<open>
  C10 (as amended). Both stages leave the table they are given, and every other table
  object, as it was, and the reference they return names their result. For a table with
  rows the result is a new object; for an empty table it is the table they were given,
  not a copy.
\<close>

theorem stages_keep_input:
  "deref h a = Some df \<Longrightarrow>
     (\<exists>h' r. enrich_orders_at h a = Some (h', r)
           \<and> deref h' a = Some df \<and> take (length h) h' = h
           \<and> deref h' r = Some (enrich_orders df)
           \<and> (if empty_df df then r = a \<and> h' = h else fresh_in h r))
     \<and> (\<exists>h' r. apply_filters_at h a start_date end_date status_list priority_list = Some (h', r)
           \<and> deref h' a = Some df \<and> take (length h) h' = h
           \<and> deref h' r = Some (apply_filters df start_date end_date status_list priority_list)
           \<and> (if empty_df df then r = a \<and> h' = h else fresh_in h r))"
  by (auto simp: enrich_orders_at_def apply_filters_at_def enrich_orders_def apply_filters_def
        alloc_def fresh_in_def deref_def nth_append)

text \<open>
  C10 as stated fails for the empty table: each stage returns the reference it was given,
  which names an object of the heap before the call.
\<close>

theorem stages_fresh_copy_counterexample:
  "deref [Raw []] 0 = Some (Raw [])
   \<and> enrich_orders_at [Raw []] 0 = Some ([Raw []], 0)
   \<and> apply_filters_at [Raw []] 0 (1992, 1, 1) (1998, 12, 31) [] [] = Some ([Raw []], 0)
   \<and> \<not> fresh_in [Raw []] 0"
  by (simp add: enrich_orders_at_def apply_filters_at_def deref_def fresh_in_def empty_df_def len_def)

theorem stages_keep_input_witness:
  "deref [Raw [order4]] 0 = Some (Raw [order4])
   \<and> enrich_orders_at [Raw [order4]] 0 = Some ([Raw [order4], Enriched [(order4, ''X'')]], 1)
   \<and> fresh_in [Raw [order4]] 1
   \<and> apply_filters_at [Raw [order4]] 0 (1992, 1, 1) (1998, 12, 31) [] [] =
        Some ([Raw [order4], Raw []], 1)"
  using stages_keep_input [of "[Raw [order4]]" 0 "Raw [order4]" "(1992, 1, 1)" "(1998, 12, 31)" "[]" "[]"]
  by (simp add: enrich_orders_at_def apply_filters_at_def deref_def fresh_in_def empty_df_def len_def
       alloc_def with_status_label_def fillna_def series_map_def STATUS_LABELS_def
       apply_mask_def masked_def order4_def)

section \<open>Connection parameters\<close>

text \<open>
  With a secrets file, a missing required field raises an error about that field before
  anything is asked of the connector: from the section of the secrets store the
  \<^verbatim>\<open>KeyError\<close> of Streamlit for a missing key, from the environment (when the store has
  no section) the \<^verbatim>\<open>RuntimeError\<close> whose message quotes a missing variable.
\<close>

lemma missing_field_with_secrets_file:
  "(store ''snowflake'' = Some s \<and>
      (s ''user'' = None \<or> s ''password'' = None \<or> s ''account'' = None) \<longrightarrow>
      (\<exists>m \<in> {''user'', ''password'', ''account''}. s m = None
         \<and> run_query read_sql key_message (Some store) environ sql params =
             (Inl (KeyError (key_message m)), [])))
   \<and> (store ''snowflake'' = None \<and>
      (environ ''SNOWFLAKE_USER'' = None \<or> environ ''SNOWFLAKE_PASSWORD'' = None
         \<or> environ ''SNOWFLAKE_ACCOUNT'' = None) \<longrightarrow>
      (\<exists>m \<in> {''SNOWFLAKE_USER'', ''SNOWFLAKE_PASSWORD'', ''SNOWFLAKE_ACCOUNT''}. environ m = None
         \<and> run_query read_sql key_message (Some store) environ sql params =
             (Inl (RuntimeError (missing_message m)), [])))"
  by (auto simp: run_query_def get_connection_params_def required3_def getitem_def
        secrets_getitem_def split: option.splits)

text \<open>
  C8. The claim fails on the code when there is no secrets file. The test for the section
  raises \<^verbatim>\<open>StreamlitSecretNotFoundError\<close>, whatever the environment holds: the
  environment is never read, and the error is about the secrets file, not about a field.
  Nothing is asked of the connector. With a secrets file that has no section, the same
  environment gives the \<^verbatim>\<open>RuntimeError\<close> that names the missing variable.
\<close>

theorem no_secrets_file_hides_missing_field:
  "get_connection_params key_message None environ = Inl StreamlitSecretNotFoundError
   \<and> run_query read_sql key_message None environ sql params = (Inl StreamlitSecretNotFoundError, [])
   \<and> run_query read_sql key_message None
        [''SNOWFLAKE_PASSWORD'' \<mapsto> ''p'', ''SNOWFLAKE_ACCOUNT'' \<mapsto> ''a''] sql params =
        (Inl StreamlitSecretNotFoundError, [])
   \<and> run_query read_sql key_message (Some Map.empty)
        [''SNOWFLAKE_PASSWORD'' \<mapsto> ''p'', ''SNOWFLAKE_ACCOUNT'' \<mapsto> ''a''] sql params =
        (Inl (RuntimeError (missing_message ''SNOWFLAKE_USER'')), [])"
  by (simp add: get_connection_params_def run_query_def required3_def getitem_def)

section \<open>Deterministic sample\<close>

lemma take_list_ok:
  "\<forall>p \<in> set ps. p < length xs \<Longrightarrow> take_list xs ps = Inr (map ((!) xs) ps)"
  by (simp add: take_list_def)

lemma take_rows_ok:
  "\<forall>p \<in> set ps. p < len df \<Longrightarrow>
     \<exists>s. take_rows df ps = Inr s \<and> orders s = map ((!) (orders df)) ps
        \<and> has_status_label s = has_status_label df"
  by (cases df) (simp_all add: take_list_ok len_def)

text \<open>
  C7. The table \<^verbatim>\<open>sample_table_section\<close> shows does not depend on the state of the
  global generator, which it leaves as it was: two runs on the same table give the same
  sample. The rows are those at the positions drawn from the generator seeded with 42,
  in the order drawn; when the generator draws \<open>k\<close> positions below \<open>n\<close> on request,
  the sample of a table with rows has \<open>min 1000 (len df)\<close> rows of the table, at most 1000.
\<close>

theorem sample_table_section_deterministic:
  "fst (sample_table_section RandomState choice ambient df)
     = fst (sample_table_section RandomState choice ambient' df)
   \<and> snd (sample_table_section RandomState choice ambient df) = ambient
   \<and> (empty_df df \<longrightarrow> fst (sample_table_section RandomState choice ambient df) = Inr None)
   \<and> ((\<forall>g n k. k \<le> n \<longrightarrow> length (choice g n k) = k \<and> (\<forall>p \<in> set (choice g n k). p < n))
        \<and> \<not> empty_df df \<longrightarrow>
        (\<exists>s. fst (sample_table_section RandomState choice ambient df) = Inr (Some s)
           \<and> orders s = map ((!) (orders df))
                          (choice (RandomState 42) (len df) (min 1000 (len df)))
           \<and> len s = min 1000 (len df) \<and> len s \<le> 1000
           \<and> set (orders s) \<subseteq> set (orders df)))"
proof -
  have indep: "fst (sample_table_section RandomState choice ambient df)
     = fst (sample_table_section RandomState choice ambient' df)"
    by (simp add: sample_table_section_def split: sum.splits)
  have amb: "snd (sample_table_section RandomState choice ambient df) = ambient"
    by (simp add: sample_table_section_def split: sum.splits)
  have emp: "empty_df df \<Longrightarrow> fst (sample_table_section RandomState choice ambient df) = Inr None"
    by (simp add: sample_table_section_def)
  have drawn: "\<exists>s. fst (sample_table_section RandomState choice ambient df) = Inr (Some s)
           \<and> orders s = map ((!) (orders df))
                          (choice (RandomState 42) (len df) (min 1000 (len df)))
           \<and> len s = min 1000 (len df) \<and> len s \<le> 1000
           \<and> set (orders s) \<subseteq> set (orders df)"
    if contract: "\<forall>g n k. k \<le> n \<longrightarrow> length (choice g n k) = k \<and> (\<forall>p \<in> set (choice g n k). p < n)"
      and ne: "\<not> empty_df df"
  proof -
    let ?ps = "choice (RandomState 42) (len df) (min 1000 (len df))"
    have le: "min 1000 (len df) \<le> len df" by simp
    from contract le have n: "length ?ps = min 1000 (len df)" and r: "\<forall>p \<in> set ?ps. p < len df"
      by blast+
    from take_rows_ok [OF r] obtain s where s: "take_rows df ?ps = Inr s"
      "orders s = map ((!) (orders df)) ?ps" by blast
    have "set (orders s) \<subseteq> set (orders df)"
      using r by (auto simp: s(2) len_def)
    with s n ne show ?thesis
      by (simp add: sample_table_section_def sample_def len_def)
  qed
  from indep amb emp drawn show ?thesis by blast
qed

theorem sample_table_section_deterministic_witness:
  "\<not> empty_df (Raw [order1, order2, order3])
   \<and> length (rev [0..<min 1000 (len (Raw [order1, order2, order3]))]) = 3
   \<and> fst (sample_table_section (\<lambda>seed. seed) (\<lambda>g n k. rev [0..<k]) (7::nat)
          (Raw [order1, order2, order3]))
     = Inr (Some (Raw [order3, order2, order1]))
   \<and> empty_df (Raw [])
   \<and> fst (sample_table_section (\<lambda>seed. seed) (\<lambda>g n k. rev [0..<k]) (8::nat) (Raw []))
     = Inr None"
proof -
  have contract: "\<forall>g n k. k \<le> n \<longrightarrow> length (rev [0..<k]) = k \<and> (\<forall>p \<in> set (rev [0..<k]). p < n)"
    by auto
  have ne: "\<not> empty_df (Raw [order1, order2, order3])" and e: "empty_df (Raw [])"
    by (simp_all add: empty_df_def len_def)
  from sample_table_section_deterministic [of "\<lambda>seed. seed" "\<lambda>g n k. rev [0..<k]" "7::nat"
          "Raw [order1, order2, order3]" 8]
    sample_table_section_deterministic [of "\<lambda>seed. seed" "\<lambda>g n k. rev [0..<k]" "8::nat"
          "Raw []" 7]
    contract ne e
  show ?thesis
    by (simp add: sample_table_section_def sample_def take_list_def len_def empty_df_def)
qed

section \<open>Sums over groups\<close>

lemma sum_list_delta:
  "distinct ks \<Longrightarrow>
     (\<Sum>k\<leftarrow>ks. if a = k then c else 0) = (if a \<in> set ks then c else (0::'a::comm_monoid_add))"
  by (induction ks) auto

lemma sum_groups:
  fixes w :: "'r \<Rightarrow> 'a::comm_monoid_add"
  assumes "distinct ks" and "key ` set rs \<subseteq> set ks"
  shows "(\<Sum>k\<leftarrow>ks. \<Sum>r\<leftarrow>filter (\<lambda>r. key r = k) rs. w r) = (\<Sum>r\<leftarrow>rs. w r)"
  using assms(2)
proof (induction rs)
  case Nil
  then show ?case by simp
next
  case (Cons r rs)
  have "(\<Sum>k\<leftarrow>ks. \<Sum>x\<leftarrow>filter (\<lambda>x. key x = k) (r # rs). w x)
        = (\<Sum>k\<leftarrow>ks. (if key r = k then w r else 0) + (\<Sum>x\<leftarrow>filter (\<lambda>x. key x = k) rs. w x))"
    by (intro arg_cong [where f = sum_list] map_cong) auto
  also have "\<dots> = (\<Sum>k\<leftarrow>ks. if key r = k then w r else 0)
                   + (\<Sum>k\<leftarrow>ks. \<Sum>x\<leftarrow>filter (\<lambda>x. key x = k) rs. w x)"
    by (simp add: sum_list_addf)
  also have "\<dots> = w r + (\<Sum>x\<leftarrow>rs. w x)"
    using Cons assms(1) by (simp add: sum_list_delta)
  finally show ?case by simp
qed

lemma groupby_keys: "map fst (groupby key rs) = sort (remdups (map key rs))"
  by (simp add: groupby_def comp_def)

lemma count_by_sum: "sum_list (map snd (count_by col rs)) = length rs"
proof -
  have "sum_list (map snd (count_by col rs))
        = (\<Sum>k\<leftarrow>sort (remdups (map col rs)). \<Sum>r\<leftarrow>filter (\<lambda>r. col r = k) rs. (1::nat))"
    by (simp add: count_by_def groupby_def comp_def sum_list_triv)
  also have "\<dots> = (\<Sum>r\<leftarrow>rs. 1)"
    by (rule sum_groups) auto
  finally show ?thesis by (simp add: sum_list_triv)
qed

lemma kpi_section_totals:
  "kpi_section df = Inr k \<Longrightarrow>
     total_orders k = len df \<and> total_amount k = fsum (map TOTAL_PRICE (orders df))"
  by (auto simp: kpi_section_def Let_def empty_df_def len_def fsum_def split: sum.splits if_splits)

section \<open>Status counts and the total order count\<close>

lemma kpi_section_returns: "\<exists>k. kpi_section df = Inr k"
proof (cases "empty_df df")
  case True
  then show ?thesis by (simp add: kpi_section_def empty_df_def)
next
  case False
  then have ne: "orders df \<noteq> []" by (simp add: empty_df_def len_def)
  then have "0 < nunique (map ORDER_DATE (orders df))" by (simp add: nunique_pos)
  with False ne show ?thesis
    by (simp add: kpi_section_def Let_def truediv_nonzero len_def)
qed

lemma count_by_keys: "map fst (count_by col rs) = sort (remdups (map col rs))"
  by (simp add: count_by_def groupby_def comp_def)

lemma count_by_counts:
  "(s, c) \<in> set (count_by col rs) \<Longrightarrow> c = length (filter (\<lambda>r. col r = s) rs)"
  by (auto simp: count_by_def groupby_def)

text \<open>
  C5. \<^verbatim>\<open>kpi_section\<close> returns on every table. On a table with rows the status counts
  of \<^verbatim>\<open>distribution_section\<close> have one entry per status that occurs, each the number
  of orders with that status, and they sum to the total order count of \<^verbatim>\<open>kpi_section\<close>
  (as do the priority counts). On an empty table \<^verbatim>\<open>distribution_section\<close> computes no
  counts, and the total order count is 0.
\<close>

theorem status_counts_sum_to_total:
  "\<exists>k. kpi_section df = Inr k \<and>
     (case distribution_section df of
        None \<Rightarrow> empty_df df \<and> total_orders k = 0
      | Some (status_cnt, priority_cnt) \<Rightarrow>
          \<not> empty_df df
          \<and> map fst status_cnt = sort (remdups (map STATUS (orders df)))
          \<and> (\<forall>(s, c) \<in> set status_cnt. c = length (filter (\<lambda>r. STATUS r = s) (orders df)))
          \<and> sum_list (map snd status_cnt) = total_orders k
          \<and> sum_list (map snd priority_cnt) = total_orders k)"
proof -
  obtain k where k: "kpi_section df = Inr k" using kpi_section_returns by blast
  then have t: "total_orders k = len df" by (simp add: kpi_section_totals)
  show ?thesis
  proof (cases "empty_df df")
    case True
    with k t show ?thesis by (simp add: distribution_section_def empty_df_def)
  next
    case False
    with k t show ?thesis
      by (auto simp: distribution_section_def count_by_sum count_by_keys len_def
            dest: count_by_counts)
  qed
qed

theorem status_counts_sum_to_total_witness:
  "distribution_section (Raw [order1, order2, order3]) =
       Some ([(''F'', 2), (''O'', 1)], [(''HIGH'', 2), (''LOW'', 1)])
   \<and> (\<exists>k. kpi_section (Raw [order1, order2, order3]) = Inr k \<and> total_orders k = 3)"
proof -
  have d: "distribution_section (Raw [order1, order2, order3]) =
       Some ([(''F'', 2), (''O'', 1)], [(''HIGH'', 2), (''LOW'', 1)])"
    by (simp add: distribution_section_def count_by_def groupby_def len_def empty_df_def
          order1_def order2_def order3_def)
  from status_counts_sum_to_total [of "Raw [order1, order2, order3]"] d show ?thesis
    by auto
qed

section \<open>Float64 sums that do not round\<close>








section \<open>Status by priority revenue matrix\<close>












section \<open>Yearly trend and year-over-year growth\<close>

lemma years_present_props:
  "sorted (years_present rs)" "distinct (years_present rs)"
  "set (years_present rs) = order_year ` set rs"
  "length (years_present rs) = card (order_year ` set rs)"
proof -
  show "sorted (years_present rs)" "distinct (years_present rs)"
    "set (years_present rs) = order_year ` set rs"
    by (simp_all add: years_present_def)
  then show "length (years_present rs) = card (order_year ` set rs)"
    using distinct_card by fastforce
qed

lemma order_year_fun: "order_year = (\<lambda>r. year (ORDER_DATE r))"
  by (rule ext) (simp add: order_year_def)

lemma yearly_agg:
  "sort_key fst (map (\<lambda>(y, g). (y, length g, sum_list (map TOTAL_PRICE g)))
                  (groupby (\<lambda>r. year (ORDER_DATE r)) rs))
   = map (\<lambda>y. (y, year_orders rs y, year_revenue rs y)) (years_present rs)"
proof -
  have "map (\<lambda>(y, g). (y, length g, sum_list (map TOTAL_PRICE g)))
                  (groupby (\<lambda>r. year (ORDER_DATE r)) rs)
        = map (\<lambda>y. (y, year_orders rs y, year_revenue rs y)) (years_present rs)"
    by (simp add: groupby_def years_present_def year_orders_def year_revenue_def order_year_fun
          comp_def)
  moreover have "sorted (map fst (map (\<lambda>y. (y, year_orders rs y, year_revenue rs y))
                    (years_present rs)))"
    by (simp add: comp_def years_present_props)
  ultimately show ?thesis by (simp only: sort_key_id_if_sorted)
qed




lemma df_year_Nil: "years_present rs = [] \<Longrightarrow> df_year rs = []"
  unfolding df_year_def Let_def yearly_agg by simp











end
